theory Spec2Isabelle
  imports Complex_Main "HOL-Library.Word" "HOL-Library.Monad_Syntax"
begin

section \<open>Dual stepper-motor controller: the motion kernel of the Teensy 4.1 firmware\<close>

text \<open>
  The model follows the dual-motor firmware (the file with \<open>BoostConfig\<close>, \<open>applyBoost\<close>
  and \<open>checkSync\<close>). Conventions:
  \<^item> a C \<open>float\<close> is a \<open>real\<close>: finite values with exact arithmetic (no rounding, no NaN);
  \<^item> \<open>unsigned long\<close> (the \<open>millis()\<close> clock, \<open>boostStartTime\<close>) is a \<open>32 word\<close>, so
    \<open>millis() - t\<close> wraps as in C; \<open>uint16_t\<close> is a \<open>16 word\<close>; \<open>long\<close> (the step counter)
    is a \<open>32 word\<close> read with \<open>sint\<close>, with two's-complement wrap-around;
  \<^item> the two global \<open>Motor\<close> structs, \<open>boostConfig\<close>, the clock and the output pins form one
    record \<open>System\<close>; a function taking \<open>Motor &m\<close> takes the motor's name (\<open>M1\<close>, \<open>M2\<close>);
  \<^item> an \<open>IntervalTimer\<close> is \<open>None\<close> after \<open>end()\<close> and \<open>Some p\<close> after \<open>begin(isr, p)\<close>, with
    \<open>p\<close> the requested period in microseconds;
  \<^item> \<open>delay(n)\<close> advances the clock by exactly \<open>n\<close> ms and nothing else takes time;
  \<^item> of the serial output only the drift warning of \<open>checkSync\<close> is kept; the other
    \<open>Serial.print\<close> calls are diagnostics that no control decision reads;
  \<^item> a busy-wait loop that may run forever takes a fuel argument and returns \<open>None\<close> when the
    fuel ends before the loop does.
\<close>

subsection \<open>Constants\<close>

definition M1_PWM_PIN :: nat where "M1_PWM_PIN = 2"
definition M1_DIR_PIN :: nat where "M1_DIR_PIN = 3"
definition M2_PWM_PIN :: nat where "M2_PWM_PIN = 4"
definition M2_DIR_PIN :: nat where "M2_DIR_PIN = 5"

definition MAX_SPEED :: real where "MAX_SPEED = 20000"
definition ACCEL_RATE :: real where "ACCEL_RATE = 8000"
definition BOOST_MULTIPLIER :: real where "BOOST_MULTIPLIER = 1.5"
definition BOOST_DURATION :: "16 word" where "BOOST_DURATION = 800"
definition SYNC_CHECK_INTERVAL :: "32 word" where "SYNC_CHECK_INTERVAL = 1000"
definition SYNC_THRESHOLD :: int where "SYNC_THRESHOLD = 100"
definition accelUpdateInterval :: "32 word" where "accelUpdateInterval = 10"

text \<open>\<open>float accelStep = (ACCEL_RATE * accelUpdateInterval) / 1000.0\<close>, local to \<open>updateSpeed\<close>.\<close>

definition accelStep :: real where
  "accelStep = (ACCEL_RATE * real (unat accelUpdateInterval)) / 1000"

text \<open>The Arduino macro \<open>constrain(amt, low, high)\<close>.\<close>

definition constrain :: "real \<Rightarrow> real \<Rightarrow> real \<Rightarrow> real" where
  "constrain amt low high = (if amt < low then low else if amt > high then high else amt)"

text \<open>The Arduino \<open>abs\<close> on a \<open>long\<close>: \<open>x > 0 ? x : -x\<close>, in 32-bit arithmetic.\<close>

definition abs_long :: "32 word \<Rightarrow> 32 word" where
  "abs_long x = (if 0 < sint x then x else - x)"

subsection \<open>Data\<close>

record BoostConfig =
  multiplier :: real
  duration :: "16 word"
  enabled :: bool

record Motor =
  pwmPin :: nat
  dirPin :: nat
  position :: "32 word"
  currentSpeed :: real
  targetSpeed :: real
  isRunning :: bool
  direction :: int
  timer :: "real option"
  boostActive :: bool
  boostStartTime :: "32 word"
  boostSpeed :: real
  normalSpeed :: real

datatype message = SyncWarning "32 word" "32 word" "32 word"

record System =
  motor1 :: Motor
  motor2 :: Motor
  boostConfig :: BoostConfig
  millis :: "32 word"
  lastAccelUpdate :: "32 word"
  lastSyncCheck :: "32 word"
  pinLevel :: "nat \<Rightarrow> bool"
  serialOut :: "message list"

datatype mid = M1 | M2

fun getMotor :: "mid \<Rightarrow> System \<Rightarrow> Motor" where
  "getMotor M1 s = motor1 s"
| "getMotor M2 s = motor2 s"

fun putMotor :: "mid \<Rightarrow> Motor \<Rightarrow> System \<Rightarrow> System" where
  "putMotor M1 m s = s\<lparr>motor1 := m\<rparr>"
| "putMotor M2 m s = s\<lparr>motor2 := m\<rparr>"

definition initMotor :: "nat \<Rightarrow> nat \<Rightarrow> Motor" where
  "initMotor pwm dir = \<lparr>pwmPin = pwm, dirPin = dir, position = 0, currentSpeed = 0,
     targetSpeed = 0, isRunning = False, direction = 1, timer = None, boostActive = False,
     boostStartTime = 0, boostSpeed = 0, normalSpeed = 0\<rparr>"

definition initSystem :: System where
  "initSystem = \<lparr>motor1 = initMotor M1_PWM_PIN M1_DIR_PIN,
     motor2 = initMotor M2_PWM_PIN M2_DIR_PIN,
     boostConfig = \<lparr>multiplier = BOOST_MULTIPLIER, duration = BOOST_DURATION, enabled = True\<rparr>,
     millis = 0, lastAccelUpdate = 0, lastSyncCheck = 0,
     pinLevel = (\<lambda>_. False), serialOut = []\<rparr>"

definition delay :: "32 word \<Rightarrow> System \<Rightarrow> System" where
  "delay n s = s\<lparr>millis := millis s + n\<rparr>"

definition digitalWrite :: "nat \<Rightarrow> bool \<Rightarrow> System \<Rightarrow> System" where
  "digitalWrite pin level s = s\<lparr>pinLevel := (pinLevel s)(pin := level)\<rparr>"

subsection \<open>The step interrupts\<close>

text \<open>\<open>stepISR_M1\<close> and \<open>stepISR_M2\<close>: a 5 microsecond pulse on the step pin, then
  \<open>position += direction\<close>.\<close>

definition stepISR :: "mid \<Rightarrow> System \<Rightarrow> System" where
  "stepISR i s =
     (let s1 = digitalWrite (case i of M1 \<Rightarrow> M1_PWM_PIN | M2 \<Rightarrow> M2_PWM_PIN) True s;
          s2 = digitalWrite (case i of M1 \<Rightarrow> M1_PWM_PIN | M2 \<Rightarrow> M2_PWM_PIN) False s1;
          m = getMotor i s2
      in putMotor i (m\<lparr>position := position m + word_of_int (direction m)\<rparr>) s2)"

subsection \<open>The ramp: \<open>updateSpeed\<close>\<close>

text \<open>\<open>updateSpeed(Motor &m)\<close> reads \<open>boostConfig.duration\<close> and \<open>millis()\<close> and writes only
  \<open>m\<close>; \<open>updateSpeedM\<close> is its body on the motor, given the two values it reads.\<close>

definition updateSpeedM :: "BoostConfig \<Rightarrow> 32 word \<Rightarrow> Motor \<Rightarrow> Motor" where
  "updateSpeedM cfg now m =
     (if \<not> isRunning m then m\<lparr>timer := None, currentSpeed := 0\<rparr>
      else
        let m1 = (if boostActive m \<and> now - boostStartTime m \<ge> ucast (duration cfg)
                  then m\<lparr>boostActive := False, targetSpeed := normalSpeed m\<rparr>
                  else m);
            speedDiff = targetSpeed m1 - currentSpeed m1;
            m2 = (if \<bar>speedDiff\<bar> > accelStep
                  then (if speedDiff > 0
                        then m1\<lparr>currentSpeed := currentSpeed m1 + accelStep\<rparr>
                        else m1\<lparr>currentSpeed := currentSpeed m1 - accelStep\<rparr>)
                  else m1\<lparr>currentSpeed := targetSpeed m1\<rparr>)
        in m2\<lparr>currentSpeed := constrain (currentSpeed m2) 0 MAX_SPEED\<rparr>)"

definition updateSpeed :: "mid \<Rightarrow> System \<Rightarrow> System" where
  "updateSpeed i s = putMotor i (updateSpeedM (boostConfig s) (millis s) (getMotor i s)) s"

subsection \<open>Timer commitment: \<open>updateTimers\<close>\<close>

definition updateTimerM :: "Motor \<Rightarrow> Motor" where
  "updateTimerM m =
     (if currentSpeed m > 0 \<and> isRunning m
      then m\<lparr>timer := Some (1000000 / currentSpeed m)\<rparr>
      else m\<lparr>timer := None\<rparr>)"

definition updateTimers :: "System \<Rightarrow> System" where
  "updateTimers s = (let s1 = s\<lparr>motor1 := updateTimerM (motor1 s)\<rparr>
                     in s1\<lparr>motor2 := updateTimerM (motor2 s1)\<rparr>)"

subsection \<open>Speed set and boost\<close>

definition setSpeedM :: "Motor \<Rightarrow> real \<Rightarrow> Motor" where
  "setSpeedM m speed =
     (let speed' = constrain speed 0 MAX_SPEED;
          m1 = m\<lparr>targetSpeed := speed'\<rparr>
      in if speed' > 0 \<and> \<not> isRunning m1 then m1\<lparr>isRunning := True\<rparr>
         else if speed' = 0 then m1\<lparr>isRunning := False\<rparr>
         else m1)"

definition setSpeed :: "mid \<Rightarrow> real \<Rightarrow> System \<Rightarrow> System" where
  "setSpeed i speed s = putMotor i (setSpeedM (getMotor i s) speed) s"

text \<open>\<open>applyBoost(Motor &m, float targetSpeed)\<close> reads \<open>boostConfig\<close> and \<open>millis()\<close>.\<close>

definition applyBoostM :: "BoostConfig \<Rightarrow> 32 word \<Rightarrow> Motor \<Rightarrow> real \<Rightarrow> Motor" where
  "applyBoostM cfg now m requested =
     (if \<not> enabled cfg then setSpeedM m requested
      else
        let boost0 = requested * multiplier cfg;
            boost1 = (if boost0 > MAX_SPEED then MAX_SPEED else boost0)
        in m\<lparr>normalSpeed := requested, boostSpeed := boost1, boostActive := True,
              boostStartTime := now, targetSpeed := boost1\<rparr>)"

definition applyBoost :: "mid \<Rightarrow> real \<Rightarrow> System \<Rightarrow> System" where
  "applyBoost i requested s =
     putMotor i (applyBoostM (boostConfig s) (millis s) (getMotor i s) requested) s"

subsection \<open>Busy waiting\<close>

text \<open>\<open>while (m.currentSpeed > limit) { updateSpeed(m); delay(accelUpdateInterval); }\<close>, the
  loop of \<open>setDirection\<close> (limit 300) and of \<open>stopMotor\<close> (limit 1). The fuel counts the
  iterations allowed.\<close>

fun busyWait :: "nat \<Rightarrow> real \<Rightarrow> mid \<Rightarrow> System \<Rightarrow> System option" where
  "busyWait 0 limit i s = (if currentSpeed (getMotor i s) > limit then None else Some s)"
| "busyWait (Suc n) limit i s =
     (if currentSpeed (getMotor i s) > limit
      then busyWait n limit i (delay accelUpdateInterval (updateSpeed i s))
      else Some s)"

subsection \<open>Direction change, stop, emergency stop\<close>

definition commitDirection :: "mid \<Rightarrow> int \<Rightarrow> System \<Rightarrow> System" where
  "commitDirection i newDir s =
     (let m = (getMotor i s)\<lparr>direction := newDir\<rparr>
      in digitalWrite (dirPin m) (direction m \<noteq> 1) (putMotor i m s))"

definition setDirection :: "nat \<Rightarrow> mid \<Rightarrow> int \<Rightarrow> System \<Rightarrow> System option" where
  "setDirection fuel i dir s =
     (let newDir = (if dir \<ge> 0 then 1 else - 1); m = getMotor i s
      in if newDir \<noteq> direction m \<and> currentSpeed m > 500
         then (let originalTarget = targetSpeed m;
                   s1 = putMotor i (m\<lparr>targetSpeed := 200\<rparr>) s
               in case busyWait fuel 300 i s1 of
                    None \<Rightarrow> None
                  | Some s2 \<Rightarrow>
                      (let s3 = commitDirection i newDir s2
                       in Some (putMotor i ((getMotor i s3)\<lparr>targetSpeed := originalTarget\<rparr>) s3)))
         else Some (commitDirection i newDir s))"

definition stopMotor :: "nat \<Rightarrow> mid \<Rightarrow> System \<Rightarrow> System option" where
  "stopMotor fuel i s =
     (let s1 = putMotor i ((getMotor i s)\<lparr>targetSpeed := 0\<rparr>) s
      in case busyWait fuel 1 i s1 of
           None \<Rightarrow> None
         | Some s2 \<Rightarrow>
             Some (putMotor i ((getMotor i s2)\<lparr>isRunning := False, timer := None,
                                               currentSpeed := 0\<rparr>) s2))"

text \<open>The loop of \<open>emergencyStop\<close>, as the list of the states at the end of each iteration;
  the loop leaves the last of them (or the state it started in). It ends for every input:
  each iteration advances the clock by 10 ms and the guard allows less than 500 ms.\<close>

definition estopBody :: "System \<Rightarrow> System" where
  "estopBody s = delay accelUpdateInterval (updateSpeed M2 (updateSpeed M1 s))"

definition estopGuard :: "32 word \<Rightarrow> System \<Rightarrow> bool" where
  "estopGuard stopStartTime s \<longleftrightarrow>
     (currentSpeed (motor1 s) > 1 \<or> currentSpeed (motor2 s) > 1) \<and>
     millis s - stopStartTime < 500"

function estopTrace :: "32 word \<Rightarrow> System \<Rightarrow> System list" where
  "estopTrace stopStartTime s =
     (if estopGuard stopStartTime s
      then estopBody s # estopTrace stopStartTime (estopBody s)
      else [])"
  by pat_completeness auto
termination
proof (relation "measure (\<lambda>(t0, s). 500 - unat (millis s - t0))")
  show "wf (measure (\<lambda>(t0, s). 500 - unat (millis s - t0)))"
    by simp
next
  fix t0 :: "32 word" and s :: System
  assume g: "estopGuard t0 s"
  then have lt: "unat (millis s - t0) < 500"
    by (simp add: estopGuard_def word_less_nat_alt)
  have m: "millis (estopBody s) = millis s + 10"
    by (simp add: estopBody_def delay_def updateSpeed_def accelUpdateInterval_def)
  have eq: "millis (estopBody s) - t0 = (millis s - t0) + 10"
    unfolding m by simp
  have u: "unat ((millis s - t0) + 10) = unat (millis s - t0) + 10"
    using lt by (simp add: unat_word_ariths)
  have "unat (millis (estopBody s) - t0) = unat (millis s - t0) + 10"
    by (simp only: eq u)
  then show "((t0, estopBody s), (t0, s)) \<in> measure (\<lambda>(t0, s). 500 - unat (millis s - t0))"
    using lt by simp
qed

declare estopTrace.simps [simp del]

text \<open>The two statements before the loop, and the forced stop after it.\<close>

definition zeroTargets :: "System \<Rightarrow> System" where
  "zeroTargets s = s\<lparr>motor1 := (motor1 s)\<lparr>targetSpeed := 0\<rparr>,
                      motor2 := (motor2 s)\<lparr>targetSpeed := 0\<rparr>\<rparr>"

definition forceStop :: "System \<Rightarrow> System" where
  "forceStop s =
     (let s1 = s\<lparr>motor1 := (motor1 s)\<lparr>timer := None\<rparr>\<rparr>;
          s2 = s1\<lparr>motor2 := (motor2 s1)\<lparr>timer := None\<rparr>\<rparr>;
          s3 = s2\<lparr>motor1 := (motor1 s2)\<lparr>isRunning := False\<rparr>\<rparr>;
          s4 = s3\<lparr>motor2 := (motor2 s3)\<lparr>isRunning := False\<rparr>\<rparr>;
          s5 = s4\<lparr>motor1 := (motor1 s4)\<lparr>currentSpeed := 0\<rparr>\<rparr>;
          s6 = s5\<lparr>motor2 := (motor2 s5)\<lparr>currentSpeed := 0\<rparr>\<rparr>
      in digitalWrite M2_PWM_PIN False (digitalWrite M1_PWM_PIN False s6))"

definition emergencyStop :: "System \<Rightarrow> System" where
  "emergencyStop s =
     (let s1 = zeroTargets s;
          stopStartTime = millis s1
      in forceStop (last (s1 # estopTrace stopStartTime s1)))"

subsection \<open>Drift check\<close>

definition checkSync :: "System \<Rightarrow> System" where
  "checkSync s =
     (let posDiff = abs_long (position (motor1 s) - position (motor2 s))
      in if sint posDiff > SYNC_THRESHOLD \<and> (isRunning (motor1 s) \<or> isRunning (motor2 s))
         then s\<lparr>serialOut := serialOut s @
                  [SyncWarning posDiff (position (motor1 s)) (position (motor2 s))]\<rparr>
         else s)"

subsection \<open>Command dispatch\<close>

text \<open>\<open>processCommand\<close> after its tokenising: the command word, the optional motor prefix
  (\<open>M1:\<close>, \<open>M2:\<close>) and the values that \<open>toFloat()\<close> and \<open>toInt()\<close> returned. \<open>SPIN\<close> and
  \<open>BOOST\<close> carry a direction word; \<open>SPIN\<close> knows only LEFT and RIGHT.\<close>

datatype dirword = LEFT | RIGHT | FORWARD_WORD | BACKWARD_WORD | OTHER_WORD

datatype command =
    SPEED "mid option" real
  | FORWARD "mid option"
  | BACKWARD "mid option"
  | STOP "mid option"
  | ESTOP
  | RUN "mid option"
  | STATUS
  | RESET "mid option"
  | SPIN dirword real
  | BOOST dirword real
  | SYNC
  | CONFIG_BOOST real "32 word" "32 word"
  | CONFIG_OTHER
  | UNKNOWN

definition setRunning :: "mid \<Rightarrow> System \<Rightarrow> System" where
  "setRunning i s = putMotor i ((getMotor i s)\<lparr>isRunning := True\<rparr>) s"

definition resetPosition :: "mid \<Rightarrow> System \<Rightarrow> System" where
  "resetPosition i s = putMotor i ((getMotor i s)\<lparr>position := 0\<rparr>) s"

text \<open>The \<open>CONFIG:BOOST:multiplier:duration:enabled\<close> branch: the three parsed values are
  stored as they are; the \<open>long\<close> of \<open>toInt()\<close> is cut to the \<open>uint16_t\<close> field.\<close>

definition configBoost :: "real \<Rightarrow> 32 word \<Rightarrow> 32 word \<Rightarrow> System \<Rightarrow> System" where
  "configBoost mult dur en s =
     s\<lparr>boostConfig := \<lparr>multiplier = mult, duration = ucast dur, enabled = (en = 1)\<rparr>\<rparr>"

definition spinOrBoost ::
  "nat \<Rightarrow> (mid \<Rightarrow> real \<Rightarrow> System \<Rightarrow> System) \<Rightarrow> int \<Rightarrow> int \<Rightarrow> real \<Rightarrow> System \<Rightarrow> System option" where
  "spinOrBoost fuel apply d1 d2 speed s =
     do { s1 \<leftarrow> setDirection fuel M1 d1 s;
          s2 \<leftarrow> setDirection fuel M2 d2 s1;
          Some (setRunning M2 (setRunning M1 (apply M2 speed (apply M1 speed s2)))) }"

fun processCommand :: "nat \<Rightarrow> command \<Rightarrow> System \<Rightarrow> System option" where
  "processCommand fuel (SPEED (Some i) v) s = Some (setSpeed i v s)"
| "processCommand fuel (SPEED None v) s = Some (setSpeed M2 v (setSpeed M1 v s))"
| "processCommand fuel (FORWARD (Some i)) s = setDirection fuel i 1 s"
| "processCommand fuel (FORWARD None) s =
     do { s1 \<leftarrow> setDirection fuel M1 1 s; setDirection fuel M2 1 s1 }"
| "processCommand fuel (BACKWARD (Some i)) s = setDirection fuel i (- 1) s"
| "processCommand fuel (BACKWARD None) s =
     do { s1 \<leftarrow> setDirection fuel M1 (- 1) s; setDirection fuel M2 (- 1) s1 }"
| "processCommand fuel (STOP (Some i)) s = stopMotor fuel i s"
| "processCommand fuel (STOP None) s =
     do { s1 \<leftarrow> stopMotor fuel M1 s; stopMotor fuel M2 s1 }"
| "processCommand fuel ESTOP s = Some (emergencyStop s)"
| "processCommand fuel (RUN (Some i)) s = Some (setRunning i s)"
| "processCommand fuel (RUN None) s = Some (setRunning M2 (setRunning M1 s))"
| "processCommand fuel STATUS s = Some s"
| "processCommand fuel (RESET (Some i)) s = stopMotor fuel i (resetPosition i s)"
| "processCommand fuel (RESET None) s =
     do { s1 \<leftarrow> stopMotor fuel M1 (resetPosition M2 (resetPosition M1 s));
          stopMotor fuel M2 s1 }"
| "processCommand fuel (SPIN LEFT v) s = spinOrBoost fuel setSpeed (- 1) 1 v s"
| "processCommand fuel (SPIN RIGHT v) s = spinOrBoost fuel setSpeed 1 (- 1) v s"
| "processCommand fuel (SPIN _ v) s = Some s"
| "processCommand fuel (BOOST LEFT v) s = spinOrBoost fuel applyBoost (- 1) 1 v s"
| "processCommand fuel (BOOST RIGHT v) s = spinOrBoost fuel applyBoost 1 (- 1) v s"
| "processCommand fuel (BOOST FORWARD_WORD v) s = spinOrBoost fuel applyBoost 1 1 v s"
| "processCommand fuel (BOOST BACKWARD_WORD v) s = spinOrBoost fuel applyBoost (- 1) (- 1) v s"
| "processCommand fuel (BOOST OTHER_WORD v) s = Some s"
| "processCommand fuel SYNC s = Some (resetPosition M2 (resetPosition M1 s))"
| "processCommand fuel (CONFIG_BOOST mult dur en) s = Some (configBoost mult dur en s)"
| "processCommand fuel CONFIG_OTHER s = Some s"
| "processCommand fuel UNKNOWN s = Some s"

subsection \<open>The main loop\<close>

text \<open>One control tick: both speeds first, then both timers.\<close>

definition tick :: "System \<Rightarrow> System" where
  "tick s = (let s1 = updateTimers (updateSpeed M2 (updateSpeed M1 s))
             in s1\<lparr>lastAccelUpdate := millis s1\<rparr>)"

text \<open>One pass of \<open>loop()\<close>, given the command that became ready, if any. Reading the
  serial line is replaced by that argument; the heartbeat of the LED is left out.\<close>

definition loop :: "nat \<Rightarrow> command option \<Rightarrow> System \<Rightarrow> System option" where
  "loop fuel cmd s =
     do { s1 \<leftarrow> (case cmd of None \<Rightarrow> Some s | Some c \<Rightarrow> processCommand fuel c s);
          let s2 = (if millis s1 - lastAccelUpdate s1 \<ge> accelUpdateInterval then tick s1 else s1);
          let s3 = (if millis s2 - lastSyncCheck s2 \<ge> SYNC_CHECK_INTERVAL
                    then (checkSync s2)\<lparr>lastSyncCheck := millis s2\<rparr> else s2);
          Some s3 }"

text \<open>The states of the running program: passes of \<open>loop()\<close> from the initial state, with time
  passing and step interrupts firing in between.\<close>

inductive reachable :: "System \<Rightarrow> bool" where
  init: "reachable initSystem"
| pass: "reachable s \<Longrightarrow> loop fuel cmd s = Some s' \<Longrightarrow> reachable s'"
| time: "reachable s \<Longrightarrow> reachable (delay d s)"
| isr: "reachable s \<Longrightarrow> timer (getMotor i s) \<noteq> None \<Longrightarrow> reachable (stepISR i s)"

section \<open>Vocabulary of the properties\<close>

text \<open>The speed bound of one motor and of both.\<close>

definition speedOK :: "Motor \<Rightarrow> bool" where
  "speedOK m \<longleftrightarrow> 0 \<le> currentSpeed m \<and> currentSpeed m \<le> MAX_SPEED"

definition bothOK :: "System \<Rightarrow> bool" where
  "bothOK s \<longleftrightarrow> speedOK (motor1 s) \<and> speedOK (motor2 s)"

text \<open>A state of the running program: the command \<open>SPEED:160\<close> arrives 10 ms after start
  and the same pass of \<open>loop()\<close> runs the first control tick.\<close>

definition demoState :: System where
  "demoState = tick (setSpeed M2 160 (setSpeed M1 160 (delay 10 initSystem)))"

text \<open>Ten milliseconds after \<open>demoState\<close> the next tick brings both motors to their target
  of 160 steps per second; five milliseconds later \<open>M1:SPEED:0\<close> arrives, and the pass of
  \<open>loop()\<close> that takes it runs no tick.\<close>

definition cruiseState :: System where
  "cruiseState = tick (delay 10 demoState)"

definition haltedState :: System where
  "haltedState = setSpeed M1 0 (delay 5 cruiseState)"

text \<open>Control ticks with no command in between: \<open>ticks ds s\<close> runs one tick after each of the
  waiting times \<open>ds\<close> (in milliseconds).\<close>

fun ticks :: "32 word list \<Rightarrow> System \<Rightarrow> System" where
  "ticks [] s = s"
| "ticks (d # ds) s = ticks ds (tick (delay d s))"


text \<open>\<open>BOOST:FORWARD:2000\<close> arrives 5 ms after \<open>demoState\<close> (both motors already run forward,
  so \<open>setDirection\<close> commits at once); 5 ms later \<open>SPEED:0\<close> arrives and the same pass of
  \<open>loop()\<close> runs a tick.\<close>

definition boostedState :: System where
  "boostedState =
     setRunning M2 (setRunning M1 (applyBoost M2 2000 (applyBoost M1 2000
       (commitDirection M2 1 (commitDirection M1 1 (delay 5 demoState))))))"

definition parkedState :: System where
  "parkedState = tick (setSpeed M2 0 (setSpeed M1 0 (delay 5 boostedState)))"

text \<open>Motor 2 is turned backward (\<open>M2:BACKWARD\<close> at 10 ms, with the first tick), \<open>SPEED:160\<close>
  arrives at 15 ms and the tick at 20 ms starts both step timers. From there motor 1 steps
  forward 2147483647 times and motor 2 backward 2147483648 times.\<close>

definition opposedState :: System where
  "opposedState =
     tick (delay 5 (setSpeed M2 160 (setSpeed M1 160
       (delay 5 (tick (commitDirection M2 (- 1) (delay 10 initSystem)))))))"

definition stepsForward :: nat where "stepsForward = 2147483647"
definition stepsBackward :: nat where "stepsBackward = 2147483648"

definition driftedState :: System where
  "driftedState = (stepISR M2 ^^ stepsBackward) ((stepISR M1 ^^ stepsForward) opposedState)"

text \<open>Whether \<open>checkSync\<close> prints its warning.\<close>

definition advisoryRaised :: "System \<Rightarrow> bool" where
  "advisoryRaised s \<longleftrightarrow> serialOut (checkSync s) \<noteq> serialOut s"


text \<open>Whether a motor's boost has run out at the clock value \<open>now\<close>, as \<open>updateSpeed\<close> tests
  it.\<close>

definition boostExpired :: "BoostConfig \<Rightarrow> 32 word \<Rightarrow> Motor \<Rightarrow> bool" where
  "boostExpired cfg now m \<longleftrightarrow>
     boostActive m \<and> ucast (duration cfg) \<le> now - boostStartTime m"

text \<open>The default configuration: \<open>BOOST:FORWARD:2000\<close> arrives 10 ms after start, with the
  first tick; 59 more ticks follow, 10 ms apart, and the motors reach the boost speed of 3000
  steps per second. At 605 ms, 595 ms into the boost of 800 ms, the next command arrives.\<close>

definition boostStartState :: System where
  "boostStartState =
     tick (setRunning M2 (setRunning M1 (applyBoost M2 2000 (applyBoost M1 2000
       (commitDirection M2 1 (commitDirection M1 1 (delay 10 initSystem)))))))"

definition boostRunState :: System where
  "boostRunState = delay 5 (ticks (replicate 59 10) boostStartState)"

text \<open>The body of a busy-wait on motor \<open>i\<close>, and the state after \<open>k\<close> iterations of it.\<close>

definition busyStep :: "mid \<Rightarrow> System \<Rightarrow> System" where
  "busyStep i s = delay accelUpdateInterval (updateSpeed i s)"

definition busyIter :: "mid \<Rightarrow> nat \<Rightarrow> System \<Rightarrow> System" where
  "busyIter i k s = (busyStep i ^^ k) s"

text \<open>The state in which \<open>setDirection(motor1, -1)\<close>, called in \<open>boostRunState\<close>, enters its
  loop: the target is down to 200.\<close>

definition reversalStart :: System where
  "reversalStart = putMotor M1 ((getMotor M1 boostRunState)\<lparr>targetSpeed := 200\<rparr>) boostRunState"

section \<open>Basic facts\<close>

subsection \<open>The speed bound is kept by every operation\<close>

lemma accelStep_val: "accelStep = 80"
  by (simp add: accelStep_def ACCEL_RATE_def accelUpdateInterval_def)

lemma constrain_bounds: "lo \<le> hi \<Longrightarrow> lo \<le> constrain x lo hi \<and> constrain x lo hi \<le> hi"
  by (simp add: constrain_def)


lemma getMotor_putMotor: "getMotor i (putMotor j m s) = (if i = j then m else getMotor i s)"
  by (cases i; cases j) simp_all

lemma putMotor_other [simp]:
  "boostConfig (putMotor j m s) = boostConfig s"
  "millis (putMotor j m s) = millis s"
  "pinLevel (putMotor j m s) = pinLevel s"
  "serialOut (putMotor j m s) = serialOut s"
  "lastAccelUpdate (putMotor j m s) = lastAccelUpdate s"
  "lastSyncCheck (putMotor j m s) = lastSyncCheck s"
  by (cases j; simp)+




lemma bothOK_delay [simp]: "bothOK (delay d s) = bothOK s"
  by (simp add: delay_def bothOK_def)

lemma bothOK_digitalWrite [simp]: "bothOK (digitalWrite p l s) = bothOK s"
  by (simp add: digitalWrite_def bothOK_def)





lemma speedOK_field_updates [simp]:
  "speedOK (m\<lparr>targetSpeed := a\<rparr>) = speedOK m"
  "speedOK (m\<lparr>isRunning := b\<rparr>) = speedOK m"
  "speedOK (m\<lparr>direction := c\<rparr>) = speedOK m"
  "speedOK (m\<lparr>position := d\<rparr>) = speedOK m"
  "speedOK (m\<lparr>timer := e\<rparr>) = speedOK m"
  "speedOK (m\<lparr>currentSpeed := 0\<rparr>)"
  by (simp_all add: speedOK_def MAX_SPEED_def)









lemma speedOK_updateTimerM [simp]: "speedOK (updateTimerM m) = speedOK m"
  by (simp add: updateTimerM_def)

lemma bothOK_updateTimers [simp]: "bothOK (updateTimers s) = bothOK s"
  by (simp add: updateTimers_def Let_def bothOK_def)

lemma bothOK_stamps [simp]:
  "bothOK (s\<lparr>lastAccelUpdate := x\<rparr>) = bothOK s"
  "bothOK (s\<lparr>lastSyncCheck := x\<rparr>) = bothOK s"
  by (simp_all add: bothOK_def)







subsection \<open>What the operations leave alone, and the first states\<close>

lemma frame_setSpeed [simp]:
  "millis (setSpeed i v s) = millis s"
  "lastAccelUpdate (setSpeed i v s) = lastAccelUpdate s"
  "lastSyncCheck (setSpeed i v s) = lastSyncCheck s"
  "boostConfig (setSpeed i v s) = boostConfig s"
  by (simp_all add: setSpeed_def)

lemma frame_updateSpeed [simp]:
  "millis (updateSpeed i s) = millis s"
  "lastAccelUpdate (updateSpeed i s) = lastAccelUpdate s"
  "lastSyncCheck (updateSpeed i s) = lastSyncCheck s"
  "boostConfig (updateSpeed i s) = boostConfig s"
  by (simp_all add: updateSpeed_def)

lemma frame_delay [simp]:
  "millis (delay d s) = millis s + d"
  "lastAccelUpdate (delay d s) = lastAccelUpdate s"
  "lastSyncCheck (delay d s) = lastSyncCheck s"
  "boostConfig (delay d s) = boostConfig s"
  "motor1 (delay d s) = motor1 s"
  "motor2 (delay d s) = motor2 s"
  "getMotor i (delay d s) = getMotor i s"
  by (cases i; simp add: delay_def)+

lemma frame_tick [simp]:
  "millis (tick s) = millis s"
  "lastAccelUpdate (tick s) = millis s"
  "lastSyncCheck (tick s) = lastSyncCheck s"
  "boostConfig (tick s) = boostConfig s"
  by (simp_all add: tick_def updateTimers_def Let_def)

lemma frame_initSystem [simp]:
  "millis initSystem = 0"
  "lastAccelUpdate initSystem = 0"
  "lastSyncCheck initSystem = 0"
  by (simp_all add: initSystem_def)





subsection \<open>One call of \<open>updateSpeed\<close>; ticks and commands of the running program\<close>



lemma getMotor_updateSpeed:
  "getMotor j (updateSpeed i s) =
     (if j = i then updateSpeedM (boostConfig s) (millis s) (getMotor i s) else getMotor j s)"
  by (simp add: updateSpeed_def getMotor_putMotor)

lemma getMotor_setSpeed:
  "getMotor j (setSpeed i v s) = (if j = i then setSpeedM (getMotor i s) v else getMotor j s)"
  by (simp add: setSpeed_def getMotor_putMotor)


lemma reachable_tick:
  assumes "reachable s" and "accelUpdateInterval \<le> millis s - lastAccelUpdate s"
    and "millis s - lastSyncCheck s < SYNC_CHECK_INTERVAL"
  shows "reachable (tick s)"
proof -
  have "loop 0 None s = Some (tick s)"
    using assms(2,3) by (simp add: loop_def Let_def not_le [symmetric])
  with assms(1) show ?thesis
    by (rule reachable.pass)
qed

lemma reachable_command:
  assumes "reachable s" and "processCommand fuel c s = Some s'"
    and "millis s' - lastAccelUpdate s' < accelUpdateInterval"
    and "millis s' - lastSyncCheck s' < SYNC_CHECK_INTERVAL"
  shows "reachable s'"
proof -
  have "loop fuel (Some c) s = Some s'"
    using assms(2,3,4) by (simp add: loop_def Let_def not_le [symmetric])
  with assms(1) show ?thesis
    by (rule reachable.pass)
qed





subsection \<open>Ticks on a steady motor\<close>

lemma getMotor_updateTimers: "getMotor i (updateTimers s) = updateTimerM (getMotor i s)"
  by (cases i) (simp_all add: updateTimers_def Let_def)

lemma getMotor_tick:
  "getMotor i (tick s) = updateTimerM (updateSpeedM (boostConfig s) (millis s) (getMotor i s))"
  by (cases i) (simp_all add: tick_def Let_def getMotor_updateTimers [of M1, simplified]
      getMotor_updateTimers [of M2, simplified] getMotor_updateSpeed [of M1, simplified]
      getMotor_updateSpeed [of M2, simplified])

lemma updateTimerM_fields [simp]:
  "currentSpeed (updateTimerM m) = currentSpeed m"
  "targetSpeed (updateTimerM m) = targetSpeed m"
  "isRunning (updateTimerM m) = isRunning m"
  "boostActive (updateTimerM m) = boostActive m"
  by (simp_all add: updateTimerM_def)

lemma updateSpeedM_steady:
  assumes "isRunning m" and "\<not> boostActive m"
  shows "isRunning (updateSpeedM cfg now m)" and "\<not> boostActive (updateSpeedM cfg now m)"
    and "targetSpeed (updateSpeedM cfg now m) = targetSpeed m"
  using assms by (simp_all add: updateSpeedM_def Let_def)

lemma updateSpeedM_snap:
  assumes "isRunning m" and "\<not> boostActive m" and "0 \<le> targetSpeed m" and "targetSpeed m \<le> MAX_SPEED"
    and "\<bar>targetSpeed m - currentSpeed m\<bar> \<le> accelStep"
  shows "currentSpeed (updateSpeedM cfg now m) = targetSpeed m"
  using assms by (simp add: updateSpeedM_def Let_def constrain_def)

lemma updateSpeedM_closer:
  assumes "isRunning m" and "\<not> boostActive m" and "0 \<le> targetSpeed m" and "targetSpeed m \<le> MAX_SPEED"
    and "\<bar>targetSpeed m - currentSpeed m\<bar> > accelStep"
  shows "\<bar>targetSpeed m - currentSpeed (updateSpeedM cfg now m)\<bar>
           \<le> \<bar>targetSpeed m - currentSpeed m\<bar> - accelStep"
  using assms by (auto simp: updateSpeedM_def Let_def constrain_def accelStep_val)

lemma ticks_converge:
  assumes "isRunning (getMotor i s)" and "\<not> boostActive (getMotor i s)"
    and "targetSpeed (getMotor i s) = T" and "0 \<le> T" and "T \<le> MAX_SPEED"
    and "\<bar>T - currentSpeed (getMotor i s)\<bar> \<le> accelStep * real (length ds)"
  shows "currentSpeed (getMotor i (ticks ds s)) = T \<and> targetSpeed (getMotor i (ticks ds s)) = T \<and>
         isRunning (getMotor i (ticks ds s)) \<and> \<not> boostActive (getMotor i (ticks ds s))"
  using assms
proof (induction ds arbitrary: s)
  case Nil
  then show ?case by simp
next
  case (Cons d ds)
  let ?m = "getMotor i s"
  let ?m' = "getMotor i (tick (delay d s))"
  have m': "?m' = updateTimerM (updateSpeedM (boostConfig s) (millis s + d) ?m)"
    by (simp add: getMotor_tick)
  have keep: "isRunning ?m'" "\<not> boostActive ?m'" "targetSpeed ?m' = T"
    using Cons.prems(1,2,3) by (simp_all add: m' updateSpeedM_steady)
  have "\<bar>T - currentSpeed ?m'\<bar> \<le> accelStep * real (length ds)"
  proof (cases "\<bar>T - currentSpeed ?m\<bar> \<le> accelStep")
    case True
    then have "currentSpeed ?m' = T"
      using Cons.prems(1-5) by (simp add: m' updateSpeedM_snap)
    then show ?thesis by (simp add: accelStep_val)
  next
    case False
    then have "\<bar>T - currentSpeed ?m'\<bar> \<le> \<bar>T - currentSpeed ?m\<bar> - accelStep"
      using Cons.prems(1-5) updateSpeedM_closer [of ?m "boostConfig s" "millis s + d"]
      by (simp add: m')
    also have "\<dots> \<le> accelStep * real (length ds)"
      using Cons.prems(6) by (simp add: algebra_simps)
    finally show ?thesis .
  qed
  with keep Cons.prems(4,5) show ?case
    by (simp add: Cons.IH)
qed

subsection \<open>Half a step per second\<close>




subsection \<open>A boost, then a stop\<close>

lemma frame_commitDirection [simp]:
  "millis (commitDirection i d s) = millis s"
  "lastAccelUpdate (commitDirection i d s) = lastAccelUpdate s"
  "lastSyncCheck (commitDirection i d s) = lastSyncCheck s"
  "boostConfig (commitDirection i d s) = boostConfig s"
  by (simp_all add: commitDirection_def digitalWrite_def Let_def)

lemma frame_applyBoost [simp]:
  "millis (applyBoost i v s) = millis s"
  "lastAccelUpdate (applyBoost i v s) = lastAccelUpdate s"
  "lastSyncCheck (applyBoost i v s) = lastSyncCheck s"
  "boostConfig (applyBoost i v s) = boostConfig s"
  by (simp_all add: applyBoost_def)

lemma frame_setRunning [simp]:
  "millis (setRunning i s) = millis s"
  "lastAccelUpdate (setRunning i s) = lastAccelUpdate s"
  "lastSyncCheck (setRunning i s) = lastSyncCheck s"
  "boostConfig (setRunning i s) = boostConfig s"
  by (simp_all add: setRunning_def)

lemma frame_demoState [simp]:
  "millis demoState = 10" "lastAccelUpdate demoState = 10" "lastSyncCheck demoState = 0"
  "boostConfig demoState = \<lparr>multiplier = 3/2, duration = 800, enabled = True\<rparr>"
  by (simp_all add: demoState_def initSystem_def BOOST_MULTIPLIER_def BOOST_DURATION_def)

lemma getMotor_commitDirection:
  "getMotor j (commitDirection i d s) =
     (if j = i then (getMotor i s)\<lparr>direction := d\<rparr> else getMotor j s)"
  by (cases i; cases j) (simp_all add: commitDirection_def digitalWrite_def Let_def)

lemma getMotor_applyBoost:
  "getMotor j (applyBoost i v s) =
     (if j = i then applyBoostM (boostConfig s) (millis s) (getMotor i s) v else getMotor j s)"
  by (simp add: applyBoost_def getMotor_putMotor)

lemma getMotor_setRunning:
  "getMotor j (setRunning i s) =
     (if j = i then (getMotor i s)\<lparr>isRunning := True\<rparr> else getMotor j s)"
  by (simp add: setRunning_def getMotor_putMotor)

lemmas getMotor_ops = getMotor_commitDirection getMotor_applyBoost getMotor_setRunning
  getMotor_setSpeed getMotor_updateSpeed getMotor_tick getMotor_updateTimers frame_delay(7)




lemma frame_boostedState [simp]:
  "millis boostedState = 15" "lastAccelUpdate boostedState = 10" "lastSyncCheck boostedState = 0"
  "boostConfig boostedState = \<lparr>multiplier = 3/2, duration = 800, enabled = True\<rparr>"
  by (simp_all add: boostedState_def)


lemma frame_parkedState [simp]:
  "millis parkedState = 20" "lastAccelUpdate parkedState = 20" "lastSyncCheck parkedState = 0"
  "boostConfig parkedState = \<lparr>multiplier = 3/2, duration = 800, enabled = True\<rparr>"
  by (simp_all add: parkedState_def)






subsection \<open>The drift in 32-bit arithmetic\<close>

lemma sint_sub_exact:
  fixes a b :: "32 word"
  assumes "- (2 ^ 31) \<le> sint a - sint b" and "sint a - sint b < 2 ^ 31"
  shows "sint (a - b) = sint a - sint b"
  using assms by (simp add: sint_word_ariths signed_take_bit_int_eq_self)

lemma sint_neg_exact:
  fixes a :: "32 word"
  assumes "- (2 ^ 31) < sint a"
  shows "sint (- a) = - sint a"
proof -
  have "sint a < 2 ^ 31"
    using sint_lt [of a] by simp
  then show ?thesis
    using assms by (simp add: sint_word_ariths signed_take_bit_int_eq_self)
qed

lemma abs_long_exact:
  fixes a b :: "32 word"
  assumes "\<bar>sint a - sint b\<bar> < 2 ^ 31"
  shows "sint (abs_long (a - b)) = \<bar>sint a - sint b\<bar>"
proof -
  have d: "sint (a - b) = sint a - sint b"
    using assms by (intro sint_sub_exact) linarith+
  show ?thesis
    using assms d sint_neg_exact [of "a - b"] by (auto simp: abs_long_def)
qed

lemma getMotor_stepISR:
  "getMotor j (stepISR i s) =
     (if j = i then (getMotor i s)\<lparr>position := position (getMotor i s) + word_of_int (direction (getMotor i s))\<rparr>
      else getMotor j s)"
  by (cases i; cases j) (simp_all add: stepISR_def digitalWrite_def Let_def)

lemma getMotor_stepISR_funpow_same:
  "getMotor i ((stepISR i ^^ n) s) =
     (getMotor i s)\<lparr>position := position (getMotor i s) + of_nat n * word_of_int (direction (getMotor i s))\<rparr>"
  by (induction n) (simp_all add: getMotor_stepISR algebra_simps del: getMotor.simps)

lemma getMotor_stepISR_funpow_other:
  "j \<noteq> i \<Longrightarrow> getMotor j ((stepISR i ^^ n) s) = getMotor j s"
  by (induction n) (simp_all add: getMotor_stepISR del: getMotor.simps)

lemma getMotor_stepISR_funpow:
  "getMotor j ((stepISR i ^^ n) s) =
     (if j = i
      then (getMotor i s)\<lparr>position := position (getMotor i s) + of_nat n * word_of_int (direction (getMotor i s))\<rparr>
      else getMotor j s)"
  by (simp add: getMotor_stepISR_funpow_same getMotor_stepISR_funpow_other del: getMotor.simps)

lemma serialOut_stepISR_funpow [simp]: "serialOut ((stepISR i ^^ n) s) = serialOut s"
  by (induction n) (simp_all add: stepISR_def digitalWrite_def Let_def)

lemma reachable_stepISR_funpow:
  assumes "reachable s" and "timer (getMotor i s) \<noteq> None"
  shows "reachable ((stepISR i ^^ n) s)"
proof (induction n)
  case 0
  then show ?case using assms(1) by simp
next
  case (Suc n)
  have "timer (getMotor i ((stepISR i ^^ n) s)) \<noteq> None"
    using assms(2) by (simp add: getMotor_stepISR_funpow del: getMotor.simps)
  with Suc show ?case
    by (simp add: reachable.isr del: getMotor.simps)
qed

lemma opposedState_reachable: "reachable opposedState"
proof -
  have a: "loop 0 (Some (BACKWARD (Some M2))) (delay 10 initSystem)
             = Some (tick (commitDirection M2 (- 1) (delay 10 initSystem)))"
    by (simp add: loop_def setDirection_def initSystem_def initMotor_def delay_def Let_def
        accelUpdateInterval_def SYNC_CHECK_INTERVAL_def commitDirection_def digitalWrite_def)
  have b: "reachable (tick (commitDirection M2 (- 1) (delay 10 initSystem)))"
    using reachable.pass [OF reachable.time [OF reachable.init] a] .
  have c: "reachable (setSpeed M2 160 (setSpeed M1 160
       (delay 5 (tick (commitDirection M2 (- 1) (delay 10 initSystem))))))"
    by (rule reachable_command [OF reachable.time [OF b], of 0 "SPEED None 160"])
      (simp_all add: accelUpdateInterval_def SYNC_CHECK_INTERVAL_def)
  show ?thesis
    unfolding opposedState_def
    by (rule reachable_tick [OF reachable.time [OF c]])
      (simp_all add: accelUpdateInterval_def SYNC_CHECK_INTERVAL_def)
qed

lemma opposedState_motors:
  "getMotor M1 opposedState = (initMotor M1_PWM_PIN M1_DIR_PIN)
      \<lparr>currentSpeed := 80, targetSpeed := 160, isRunning := True, timer := Some 12500\<rparr>"
  "getMotor M2 opposedState = (initMotor M2_PWM_PIN M2_DIR_PIN)
      \<lparr>currentSpeed := 80, targetSpeed := 160, isRunning := True, direction := - 1,
       timer := Some 12500\<rparr>"
proof -
  let ?a = "tick (commitDirection M2 (- 1) (delay 10 initSystem))"
  have a: "getMotor M1 ?a = initMotor M1_PWM_PIN M1_DIR_PIN"
    "getMotor M2 ?a = (initMotor M2_PWM_PIN M2_DIR_PIN)\<lparr>direction := - 1\<rparr>"
    by (simp_all add: getMotor_ops updateSpeedM_def updateTimerM_def initMotor_def
        del: getMotor.simps) (simp_all add: initSystem_def initMotor_def)
  let ?b = "setSpeed M2 160 (setSpeed M1 160 (delay 5 ?a))"
  have b: "getMotor M1 ?b = (initMotor M1_PWM_PIN M1_DIR_PIN)\<lparr>targetSpeed := 160, isRunning := True\<rparr>"
    "getMotor M2 ?b = (initMotor M2_PWM_PIN M2_DIR_PIN)
        \<lparr>targetSpeed := 160, isRunning := True, direction := - 1\<rparr>"
    by (simp_all add: getMotor_setSpeed a setSpeedM_def constrain_def MAX_SPEED_def initMotor_def
        Let_def del: getMotor.simps)
  show "getMotor M1 opposedState = (initMotor M1_PWM_PIN M1_DIR_PIN)
      \<lparr>currentSpeed := 80, targetSpeed := 160, isRunning := True, timer := Some 12500\<rparr>"
    and "getMotor M2 opposedState = (initMotor M2_PWM_PIN M2_DIR_PIN)
      \<lparr>currentSpeed := 80, targetSpeed := 160, isRunning := True, direction := - 1,
       timer := Some 12500\<rparr>"
    unfolding opposedState_def
    by (simp_all add: getMotor_tick b updateSpeedM_def updateTimerM_def constrain_def accelStep_val
        MAX_SPEED_def initMotor_def Let_def del: getMotor.simps)
qed

lemma driftedState_reachable: "reachable driftedState"
  unfolding driftedState_def
  by (intro reachable_stepISR_funpow opposedState_reachable)
    (simp_all add: getMotor_stepISR_funpow opposedState_motors initMotor_def del: getMotor.simps)

lemma driftedState_motors:
  "position (motor1 driftedState) = 2147483647"
  "position (motor2 driftedState) = - 2147483648"
  "isRunning (motor1 driftedState)"
proof -
  have "getMotor M1 driftedState = (getMotor M1 opposedState)\<lparr>position := of_nat stepsForward\<rparr>"
    and "getMotor M2 driftedState = (getMotor M2 opposedState)\<lparr>position := - of_nat stepsBackward\<rparr>"
    unfolding driftedState_def
    by (simp_all add: getMotor_stepISR_funpow opposedState_motors initMotor_def del: getMotor.simps)
  then show "position (motor1 driftedState) = 2147483647"
    and "position (motor2 driftedState) = - 2147483648"
    and "isRunning (motor1 driftedState)"
    by (simp_all add: stepsForward_def stepsBackward_def
        opposedState_motors [unfolded getMotor.simps] initMotor_def)
qed

lemma checkSync_frame:
  "motor1 (checkSync s) = motor1 s" "motor2 (checkSync s) = motor2 s"
  "boostConfig (checkSync s) = boostConfig s" "pinLevel (checkSync s) = pinLevel s"
  "millis (checkSync s) = millis s"
  by (simp_all add: checkSync_def Let_def)

lemma advisoryRaised_iff:
  "advisoryRaised s \<longleftrightarrow>
     SYNC_THRESHOLD < sint (abs_long (position (motor1 s) - position (motor2 s))) \<and>
     (isRunning (motor1 s) \<or> isRunning (motor2 s))"
  by (simp add: advisoryRaised_def checkSync_def Let_def)

subsection \<open>The loop of \<open>emergencyStop\<close>\<close>


lemma frame_estopBody [simp]:
  "millis (estopBody s) = millis s + 10"
  "boostConfig (estopBody s) = boostConfig s"
  by (simp_all add: estopBody_def accelUpdateInterval_def)










lemma frame_forceStop [simp]:
  "millis (forceStop s) = millis s"
  "pinLevel (forceStop s) M1_PWM_PIN = False"
  "pinLevel (forceStop s) M2_PWM_PIN = False"
  by (simp_all add: forceStop_def digitalWrite_def Let_def)


lemma frame_zeroTargets [simp]:
  "millis (zeroTargets s) = millis s"
  "boostConfig (zeroTargets s) = boostConfig s"
  "bothOK (zeroTargets s) = bothOK s"
  by (simp_all add: zeroTargets_def bothOK_def)



subsection \<open>Boost expiry and the clock\<close>

lemma unat_duration_bound: "unat (d :: 16 word) < 65536"
  using unsigned_less [of d] by simp

lemma unat_ucast_duration: "unat (ucast (d :: 16 word) :: 32 word) = unat d"
proof -
  have "unat d < 2 ^ 32"
    using unat_duration_bound [of d] by simp
  then show ?thesis
    by (simp add: unsigned_ucast_eq take_bit_nat_eq_self)
qed

lemma duration_le_iff: "ucast (d :: 16 word) \<le> (a :: 32 word) \<longleftrightarrow> unat d \<le> unat a"
  by (simp add: word_le_nat_alt unat_ucast_duration)

lemma elapsed_plus_10:
  fixes a :: "32 word"
  assumes "unat a < 65536"
  shows "unat (a + 10) = unat a + 10"
  using assms by (simp add: unat_word_ariths)

lemma updateSpeedM_unexpired:
  assumes "isRunning m" and "\<not> boostExpired cfg now m"
  shows "updateSpeedM cfg now m =
     m\<lparr>currentSpeed := constrain
        (if \<bar>targetSpeed m - currentSpeed m\<bar> > accelStep
         then (if targetSpeed m - currentSpeed m > 0 then currentSpeed m + accelStep
               else currentSpeed m - accelStep)
         else targetSpeed m) 0 MAX_SPEED\<rparr>"
proof -
  have ne: "(boostActive m \<and> ucast (duration cfg) \<le> now - boostStartTime m) = False"
    using assms(2) by (simp add: boostExpired_def)
  show ?thesis
    using assms(1) unfolding updateSpeedM_def ne by (simp add: Let_def)
qed

lemma updateSpeedM_down:
  assumes "isRunning m" and "\<not> boostExpired cfg now m"
    and "currentSpeed m - targetSpeed m > accelStep" and "currentSpeed m \<le> MAX_SPEED"
    and "0 \<le> targetSpeed m"
  shows "updateSpeedM cfg now m = m\<lparr>currentSpeed := currentSpeed m - accelStep\<rparr>"
  using assms(3-)
  by (simp add: updateSpeedM_unexpired [OF assms(1,2)] constrain_def accelStep_val MAX_SPEED_def)

lemma updateSpeedM_up:
  assumes "isRunning m" and "\<not> boostExpired cfg now m"
    and "0 \<le> currentSpeed m" and "currentSpeed m \<le> targetSpeed m" and "targetSpeed m \<le> MAX_SPEED"
  shows "updateSpeedM cfg now m = m\<lparr>currentSpeed := min (targetSpeed m) (currentSpeed m + accelStep)\<rparr>"
  using assms(3-)
  by (simp add: updateSpeedM_unexpired [OF assms(1,2)] constrain_def accelStep_val MAX_SPEED_def
      min_def)

lemma updateSpeedM_expired:
  assumes "isRunning m" and "boostExpired cfg now m"
  shows "updateSpeedM cfg now m =
           updateSpeedM cfg now (m\<lparr>boostActive := False, targetSpeed := normalSpeed m\<rparr>)"
  using assms by (simp add: updateSpeedM_def boostExpired_def Let_def)

lemma elapsed_after_10:
  fixes now start :: "32 word"
  assumes "unat (now - start) < 65536"
  shows "unat (now + 10 - start) = unat (now - start) + 10"
proof -
  have "now + 10 - start = (now - start) + 10"
    by simp
  then show ?thesis
    using elapsed_plus_10 [OF assms] by (simp only:)
qed

lemma not_boostExpired_pending:
  assumes "boostActive m \<longrightarrow> unat (now - boostStartTime m) < unat (duration cfg)"
  shows "\<not> boostExpired cfg now m"
  using assms by (auto simp: boostExpired_def duration_le_iff)

lemma tick_ramp_up_one:
  assumes run: "isRunning (getMotor i s)"
    and T: "0 < targetSpeed (getMotor i s)" "targetSpeed (getMotor i s) \<le> MAX_SPEED"
    and c: "0 \<le> currentSpeed (getMotor i s)" "currentSpeed (getMotor i s) \<le> targetSpeed (getMotor i s)"
    and pend: "boostActive (getMotor i s) \<longrightarrow>
        unat (millis s - boostStartTime (getMotor i s)) + 10 < unat (duration (boostConfig s))"
  shows "getMotor i (tick (delay 10 s)) = (getMotor i s)
      \<lparr>currentSpeed := min (targetSpeed (getMotor i s)) (currentSpeed (getMotor i s) + accelStep),
       timer := Some (1000000 / min (targetSpeed (getMotor i s)) (currentSpeed (getMotor i s) + accelStep))\<rparr>"
proof -
  let ?m = "getMotor i s"
  have "boostActive ?m \<longrightarrow> unat (millis s + 10 - boostStartTime ?m) < unat (duration (boostConfig s))"
  proof
    assume "boostActive ?m"
    with pend have lt: "unat (millis s - boostStartTime ?m) + 10 < unat (duration (boostConfig s))"
      by simp
    then have "unat (millis s - boostStartTime ?m) < 65536"
      using unat_duration_bound [of "duration (boostConfig s)"] by linarith
    from elapsed_after_10 [OF this] lt
    show "unat (millis s + 10 - boostStartTime ?m) < unat (duration (boostConfig s))"
      by simp
  qed
  then have ne: "\<not> boostExpired (boostConfig s) (millis s + 10) ?m"
    by (rule not_boostExpired_pending)
  have pos: "0 < min (targetSpeed ?m) (currentSpeed ?m + accelStep)"
    using T(1) c(1) by (simp add: accelStep_val)
  show ?thesis
    using pos run
    by (simp add: getMotor_tick updateSpeedM_up [OF run ne c T(2)] updateTimerM_def
        del: getMotor.simps)
qed

lemma ticks_ramp_up:
  assumes "isRunning (getMotor i s)"
    and "0 < targetSpeed (getMotor i s)" and "targetSpeed (getMotor i s) \<le> MAX_SPEED"
    and "0 \<le> currentSpeed (getMotor i s)"
    and "currentSpeed (getMotor i s) \<le> targetSpeed (getMotor i s)"
    and "boostActive (getMotor i s) \<longrightarrow>
        unat (millis s - boostStartTime (getMotor i s)) + 10 * Suc n < unat (duration (boostConfig s))"
  shows "getMotor i (ticks (replicate (Suc n) 10) s) = (getMotor i s)
      \<lparr>currentSpeed := min (targetSpeed (getMotor i s))
                           (currentSpeed (getMotor i s) + accelStep * real (Suc n)),
       timer := Some (1000000 / min (targetSpeed (getMotor i s))
                           (currentSpeed (getMotor i s) + accelStep * real (Suc n)))\<rparr>"
  using assms
proof (induction n arbitrary: s)
  case 0
  have "getMotor i (tick (delay 10 s)) = (getMotor i s)
      \<lparr>currentSpeed := min (targetSpeed (getMotor i s)) (currentSpeed (getMotor i s) + accelStep),
       timer := Some (1000000 / min (targetSpeed (getMotor i s)) (currentSpeed (getMotor i s) + accelStep))\<rparr>"
    using "0.prems" by (intro tick_ramp_up_one) simp_all
  then show ?case
    by (simp del: getMotor.simps)
next
  case (Suc n)
  let ?m = "getMotor i s"
  let ?s' = "tick (delay 10 s)"
  let ?c' = "min (targetSpeed ?m) (currentSpeed ?m + accelStep)"
  have one: "getMotor i ?s' = ?m\<lparr>currentSpeed := ?c', timer := Some (1000000 / ?c')\<rparr>"
    using Suc.prems by (intro tick_ramp_up_one) auto
  have pend': "boostActive (getMotor i ?s') \<longrightarrow>
      unat (millis ?s' - boostStartTime (getMotor i ?s')) + 10 * Suc n < unat (duration (boostConfig ?s'))"
  proof
    assume "boostActive (getMotor i ?s')"
    then have "boostActive ?m" by (simp add: one)
    with Suc.prems(6)
    have lt: "unat (millis s - boostStartTime ?m) + 10 * Suc (Suc n) < unat (duration (boostConfig s))"
      by simp
    then have "unat (millis s - boostStartTime ?m) < 65536"
      using unat_duration_bound [of "duration (boostConfig s)"] by linarith
    from elapsed_after_10 [OF this] lt
    show "unat (millis ?s' - boostStartTime (getMotor i ?s')) + 10 * Suc n
            < unat (duration (boostConfig ?s'))"
      by (simp add: one)
  qed
  have "getMotor i (ticks (replicate (Suc n) 10) ?s') = (getMotor i ?s')
      \<lparr>currentSpeed := min (targetSpeed (getMotor i ?s'))
                           (currentSpeed (getMotor i ?s') + accelStep * real (Suc n)),
       timer := Some (1000000 / min (targetSpeed (getMotor i ?s'))
                           (currentSpeed (getMotor i ?s') + accelStep * real (Suc n)))\<rparr>"
    using Suc.prems(1-5) pend'
    by (intro Suc.IH) (simp_all add: one accelStep_val)
  moreover have "min (targetSpeed ?m) (?c' + accelStep * real (Suc n))
      = min (targetSpeed ?m) (currentSpeed ?m + accelStep * real (Suc (Suc n)))"
    by (simp add: accelStep_val min_def algebra_simps)
  ultimately show ?case
    by (simp add: one del: getMotor.simps)
qed

lemma frame_ticks [simp]:
  "boostConfig (ticks ds s) = boostConfig s"
  "lastSyncCheck (ticks ds s) = lastSyncCheck s"
  "millis (ticks ds s) = millis s + sum_list ds"
  by (induction ds arbitrary: s) (simp_all add: algebra_simps)

lemma frame_configBoost [simp]:
  "millis (configBoost a b c s) = millis s"
  "lastAccelUpdate (configBoost a b c s) = lastAccelUpdate s"
  "lastSyncCheck (configBoost a b c s) = lastSyncCheck s"
  "getMotor i (configBoost a b c s) = getMotor i s"
  "boostConfig (configBoost a b c s) = \<lparr>multiplier = a, duration = ucast b, enabled = (c = 1)\<rparr>"
  by (cases i; simp add: configBoost_def)+

lemma reachable_ticks:
  assumes "reachable s" and "lastAccelUpdate s = millis s"
    and "unat (millis s - lastSyncCheck s) + 10 * n < 1000"
  shows "reachable (ticks (replicate n 10) s)"
  using assms
proof (induction n arbitrary: s)
  case 0
  then show ?case by simp
next
  case (Suc n)
  have e: "unat (millis s + 10 - lastSyncCheck s) = unat (millis s - lastSyncCheck s) + 10"
    using Suc.prems(3) by (intro elapsed_after_10) simp
  have "reachable (tick (delay 10 s))"
    using Suc.prems(2,3) e
    by (intro reachable_tick reachable.time Suc.prems(1))
      (simp_all add: accelUpdateInterval_def SYNC_CHECK_INTERVAL_def word_less_nat_alt)
  then have "reachable (ticks (replicate n 10) (tick (delay 10 s)))"
    using Suc.prems(3) e by (intro Suc.IH) simp_all
  then show ?case by simp
qed

subsection \<open>A boost under way\<close>

lemma setDirection_immediate:
  assumes "currentSpeed (getMotor i s) \<le> 500 \<or> (if d \<ge> 0 then 1 else - 1) = direction (getMotor i s)"
  shows "setDirection fuel i d s = Some (commitDirection i (if d \<ge> 0 then 1 else - 1) s)"
  using assms by (auto simp: setDirection_def Let_def)

lemma getMotor_initSystem:
  "currentSpeed (getMotor i initSystem) = 0" "direction (getMotor i initSystem) = 1"
  "\<not> isRunning (getMotor i initSystem)" "\<not> boostActive (getMotor i initSystem)"
  "position (getMotor i initSystem) = 0" "timer (getMotor i initSystem) = None"
  by (cases i; simp add: initSystem_def initMotor_def)+

lemma boostStartState_reachable: "reachable boostStartState"
proof -
  have "processCommand 0 (BOOST FORWARD_WORD 2000) (delay 10 initSystem) =
      Some (setRunning M2 (setRunning M1 (applyBoost M2 2000 (applyBoost M1 2000
       (commitDirection M2 1 (commitDirection M1 1 (delay 10 initSystem)))))))"
    by (simp add: spinOrBoost_def setDirection_immediate getMotor_commitDirection
        getMotor_initSystem del: getMotor.simps)
  then have "loop 0 (Some (BOOST FORWARD_WORD 2000)) (delay 10 initSystem) = Some boostStartState"
    by (simp add: loop_def boostStartState_def Let_def accelUpdateInterval_def
        SYNC_CHECK_INTERVAL_def)
  then show ?thesis
    using reachable.pass [OF reachable.time [OF reachable.init]] by blast
qed

lemma boostStartState_frame [simp]:
  "millis boostStartState = 10" "lastAccelUpdate boostStartState = 10"
  "lastSyncCheck boostStartState = 0"
  "boostConfig boostStartState = \<lparr>multiplier = 3/2, duration = 800, enabled = True\<rparr>"
  by (simp_all add: boostStartState_def) (simp add: initSystem_def BOOST_MULTIPLIER_def BOOST_DURATION_def)

lemma boostStartState_motors:
  "getMotor i boostStartState = (getMotor i initSystem)
      \<lparr>currentSpeed := 80, targetSpeed := 3000, isRunning := True, timer := Some 12500,
       boostActive := True, boostStartTime := 10, boostSpeed := 3000, normalSpeed := 2000\<rparr>"
proof -
  let ?b = "setRunning M2 (setRunning M1 (applyBoost M2 2000 (applyBoost M1 2000
       (commitDirection M2 1 (commitDirection M1 1 (delay 10 initSystem))))))"
  have cfg: "boostConfig ?b = \<lparr>multiplier = 3/2, duration = 800, enabled = True\<rparr>" "millis ?b = 10"
    by (simp_all add: initSystem_def BOOST_MULTIPLIER_def BOOST_DURATION_def)
  have b: "getMotor i ?b = (getMotor i initSystem)
      \<lparr>targetSpeed := 3000, isRunning := True,
       boostActive := True, boostStartTime := 10, boostSpeed := 3000, normalSpeed := 2000\<rparr>"
    by (cases i)
      (simp_all add: getMotor_ops applyBoostM_def MAX_SPEED_def Let_def del: getMotor.simps,
        simp_all add: initSystem_def initMotor_def BOOST_MULTIPLIER_def BOOST_DURATION_def)
  show ?thesis
    unfolding boostStartState_def getMotor_tick cfg b
    by (cases i)
      (simp_all add: updateSpeedM_def updateTimerM_def constrain_def accelStep_val MAX_SPEED_def
        Let_def initSystem_def initMotor_def)
qed

lemma boostRunState_reachable: "reachable boostRunState"
  unfolding boostRunState_def
  by (intro reachable.time reachable_ticks boostStartState_reachable) simp_all

lemma boostRunState_frame [simp]:
  "millis boostRunState = 605"
  "boostConfig boostRunState = \<lparr>multiplier = 3/2, duration = 800, enabled = True\<rparr>"
  by (simp_all add: boostRunState_def sum_list_replicate)

lemma boostRunState_motors:
  "getMotor i boostRunState = (getMotor i initSystem)
      \<lparr>currentSpeed := 3000, targetSpeed := 3000, isRunning := True, timer := Some (1000 / 3),
       boostActive := True, boostStartTime := 10, boostSpeed := 3000, normalSpeed := 2000\<rparr>"
proof -
  have "getMotor i (ticks (replicate (Suc 58) 10) boostStartState) = (getMotor i boostStartState)
      \<lparr>currentSpeed := min (targetSpeed (getMotor i boostStartState))
                           (currentSpeed (getMotor i boostStartState) + accelStep * real (Suc 58)),
       timer := Some (1000000 / min (targetSpeed (getMotor i boostStartState))
                           (currentSpeed (getMotor i boostStartState) + accelStep * real (Suc 58)))\<rparr>"
    by (rule ticks_ramp_up) (simp_all add: boostStartState_motors MAX_SPEED_def del: getMotor.simps)
  then show ?thesis
    by (simp add: boostRunState_def boostStartState_motors accelStep_val del: getMotor.simps)
qed

subsection \<open>A busy-wait with a boost that runs out\<close>

lemma busyWait_unroll:
  assumes "limit < currentSpeed (getMotor i s)"
  shows "busyWait fuel limit i s =
     (case fuel of 0 \<Rightarrow> None
      | Suc k \<Rightarrow> busyWait k limit i (delay accelUpdateInterval (updateSpeed i s)))"
  using assms by (cases fuel) simp_all

lemma getMotor_busyStep:
  "getMotor i (updateSpeed i s) = updateSpeedM (boostConfig s) (millis s) (getMotor i s)"
  by (simp add: getMotor_updateSpeed del: getMotor.simps)

lemma updateSpeedM_stays_above:
  assumes "isRunning m" and "\<not> boostActive m" and "L < targetSpeed m" and "L < currentSpeed m"
    and "0 \<le> L" and "L < MAX_SPEED"
  shows "L < currentSpeed (updateSpeedM cfg now m)"
proof -
  have "\<not> boostExpired cfg now m"
    using assms(2) by (simp add: boostExpired_def)
  from updateSpeedM_unexpired [OF assms(1) this] assms(3-) show ?thesis
    by (simp add: constrain_def accelStep_val)
qed

text \<open>Once the boost is over and the target is above the limit, a busy-wait for a speed at or
  below the limit never ends.\<close>

lemma busyWait_stuck:
  assumes "isRunning (getMotor i s)" and "\<not> boostActive (getMotor i s)"
    and "L < targetSpeed (getMotor i s)" and "L < currentSpeed (getMotor i s)"
    and "0 \<le> L" and "L < MAX_SPEED"
  shows "busyWait fuel L i s = None"
  using assms
proof (induction fuel arbitrary: s)
  case 0
  then show ?case by simp
next
  case (Suc fuel)
  let ?s' = "delay accelUpdateInterval (updateSpeed i s)"
  have "busyWait fuel L i ?s' = None"
    using Suc.prems
    by (intro Suc.IH)
      (simp_all add: getMotor_updateSpeed updateSpeedM_steady updateSpeedM_stays_above
        del: getMotor.simps)
  then show ?case
    using Suc.prems(4) by simp
qed

text \<open>A boost that runs out within \<open>n\<close> iterations of the busy-wait, while the speed is still
  more than \<open>n\<close> steps of the ramp above the limit, sends the target back to \<open>normalSpeed\<close>;
  with \<open>normalSpeed\<close> above the limit the loop never ends.\<close>

lemma busyWait_boost_rearms:
  assumes "isRunning (getMotor i s)" and "boostActive (getMotor i s)"
    and "L < normalSpeed (getMotor i s)"
    and "0 \<le> targetSpeed (getMotor i s)" and "targetSpeed (getMotor i s) \<le> L"
    and "L < MAX_SPEED" and "currentSpeed (getMotor i s) \<le> MAX_SPEED"
    and "L + accelStep * real n < currentSpeed (getMotor i s)"
    and "unat (duration (boostConfig s)) \<le> unat (millis s - boostStartTime (getMotor i s)) + 10 * n"
  shows "busyWait fuel L i s = None"
  using assms
proof (induction n arbitrary: s fuel)
  case 0
  let ?m = "getMotor i s"
  let ?s' = "delay accelUpdateInterval (updateSpeed i s)"
  have above: "L < currentSpeed ?m"
    using "0.prems"(8) by simp
  have ex: "boostExpired (boostConfig s) (millis s) ?m"
    using "0.prems"(2,9) by (simp add: boostExpired_def duration_le_iff)
  have m': "getMotor i (updateSpeed i s) = updateSpeedM (boostConfig s) (millis s)
      (?m\<lparr>boostActive := False, targetSpeed := normalSpeed ?m\<rparr>)"
    by (simp only: getMotor_busyStep updateSpeedM_expired [OF "0.prems"(1) ex])
  have "busyWait k L i ?s' = None" for k
    using "0.prems"(1,3,4,5,6) above
    by (intro busyWait_stuck)
      (simp_all add: m' updateSpeedM_steady updateSpeedM_stays_above del: getMotor.simps)
  then show ?case
    by (simp add: busyWait_unroll [OF above] split: nat.splits)
next
  case (Suc n)
  let ?m = "getMotor i s"
  let ?s' = "delay accelUpdateInterval (updateSpeed i s)"
  have above: "L < currentSpeed ?m"
    using Suc.prems(8) by (simp add: accelStep_val)
  show ?case
  proof (cases "boostExpired (boostConfig s) (millis s) ?m")
    case True
    have m': "getMotor i (updateSpeed i s) = updateSpeedM (boostConfig s) (millis s)
        (?m\<lparr>boostActive := False, targetSpeed := normalSpeed ?m\<rparr>)"
      by (simp only: getMotor_busyStep updateSpeedM_expired [OF Suc.prems(1) True])
    have "busyWait k L i ?s' = None" for k
      using Suc.prems(1,3,4,5,6) above
      by (intro busyWait_stuck)
        (simp_all add: m' updateSpeedM_steady updateSpeedM_stays_above del: getMotor.simps)
    then show ?thesis
      by (simp add: busyWait_unroll [OF above] split: nat.splits)
  next
    case False
    then have lt: "unat (millis s - boostStartTime ?m) < unat (duration (boostConfig s))"
      using Suc.prems(2) by (simp add: boostExpired_def duration_le_iff)
    then have "unat (millis s - boostStartTime ?m) < 65536"
      using unat_duration_bound [of "duration (boostConfig s)"] by linarith
    note e = elapsed_after_10 [OF this]
    have down: "accelStep < currentSpeed ?m - targetSpeed ?m"
      using Suc.prems(5,8) by (simp add: accelStep_val)
    have m': "getMotor i (updateSpeed i s) = ?m\<lparr>currentSpeed := currentSpeed ?m - accelStep\<rparr>"
      by (simp only: getMotor_busyStep
          updateSpeedM_down [OF Suc.prems(1) False down Suc.prems(7) Suc.prems(4)])
    have "busyWait k L i ?s' = None" for k
      using Suc.prems e
      by (intro Suc.IH)
        (simp_all add: m' accelStep_val accelUpdateInterval_def algebra_simps del: getMotor.simps)
    then show ?thesis
      by (simp add: busyWait_unroll [OF above] split: nat.splits)
  qed
qed

lemma busyIter_simps [simp]:
  "busyIter i 0 s = s"
  "busyIter i (Suc k) s = busyIter i k (delay accelUpdateInterval (updateSpeed i s))"
  by (simp_all add: busyIter_def funpow_swap1) (simp add: busyStep_def)

lemma busyWait_busyIter:
  assumes "\<And>j. j < k \<Longrightarrow> limit < currentSpeed (getMotor i (busyIter i j s))"
  shows "busyWait (k + n) limit i s = busyWait n limit i (busyIter i k s)"
  using assms
proof (induction k arbitrary: s)
  case 0
  then show ?case by simp
next
  case (Suc k)
  have "limit < currentSpeed (getMotor i s)"
    using Suc.prems [of 0] by simp
  moreover have "busyWait (k + n) limit i (delay accelUpdateInterval (updateSpeed i s))
      = busyWait n limit i (busyIter i k (delay accelUpdateInterval (updateSpeed i s)))"
    using Suc.prems [of "Suc j" for j] by (intro Suc.IH) simp
  ultimately show ?case by simp
qed

lemma busyIter_pending:
  assumes "isRunning (getMotor i s)" and "boostActive (getMotor i s)"
    and "0 \<le> targetSpeed (getMotor i s)" and "currentSpeed (getMotor i s) \<le> MAX_SPEED"
    and "targetSpeed (getMotor i s) + accelStep * real k < currentSpeed (getMotor i s)"
    and "unat (millis s - boostStartTime (getMotor i s)) + 10 * k
           < unat (duration (boostConfig s)) + 10"
  shows "getMotor i (busyIter i k s)
           = (getMotor i s)\<lparr>currentSpeed := currentSpeed (getMotor i s) - accelStep * real k\<rparr>
         \<and> millis (busyIter i k s) = millis s + 10 * of_nat k
         \<and> boostConfig (busyIter i k s) = boostConfig s"
  using assms
proof (induction k arbitrary: s)
  case 0
  then show ?case by simp
next
  case (Suc k)
  let ?m = "getMotor i s"
  let ?s' = "delay accelUpdateInterval (updateSpeed i s)"
  have lt: "unat (millis s - boostStartTime ?m) < unat (duration (boostConfig s))"
    using Suc.prems(6) by simp
  then have ne: "\<not> boostExpired (boostConfig s) (millis s) ?m"
    by (simp add: boostExpired_def duration_le_iff)
  have "unat (millis s - boostStartTime ?m) < 65536"
    using lt unat_duration_bound [of "duration (boostConfig s)"] by linarith
  note e = elapsed_after_10 [OF this]
  have down: "accelStep < currentSpeed ?m - targetSpeed ?m"
    using Suc.prems(5) by (simp add: accelStep_val algebra_simps)
  have m': "getMotor i (updateSpeed i s) = ?m\<lparr>currentSpeed := currentSpeed ?m - accelStep\<rparr>"
    by (simp only: getMotor_busyStep
        updateSpeedM_down [OF Suc.prems(1) ne down Suc.prems(4) Suc.prems(3)])
  have "getMotor i (busyIter i k ?s')
           = (getMotor i ?s')\<lparr>currentSpeed := currentSpeed (getMotor i ?s') - accelStep * real k\<rparr>
         \<and> millis (busyIter i k ?s') = millis ?s' + 10 * of_nat k
         \<and> boostConfig (busyIter i k ?s') = boostConfig ?s'"
    using Suc.prems e
    by (intro Suc.IH)
      (simp_all add: m' accelStep_val accelUpdateInterval_def algebra_simps del: getMotor.simps)
  then show ?case
    by (simp add: m' accelUpdateInterval_def algebra_simps del: getMotor.simps)
qed

lemma busyIter_Suc_right: "busyIter i (Suc k) s = busyStep i (busyIter i k s)"
  by (simp add: busyIter_def)

lemma reversalStart_frame [simp]:
  "millis reversalStart = 605"
  "boostConfig reversalStart = \<lparr>multiplier = 3/2, duration = 800, enabled = True\<rparr>"
  by (simp_all add: reversalStart_def)

lemma reversalStart_motor1:
  "getMotor M1 reversalStart = (getMotor M1 initSystem)
      \<lparr>currentSpeed := 3000, targetSpeed := 200, isRunning := True, timer := Some (1000 / 3),
       boostActive := True, boostStartTime := 10, boostSpeed := 3000, normalSpeed := 2000\<rparr>"
  by (simp add: reversalStart_def getMotor_putMotor boostRunState_motors
      del: getMotor.simps putMotor.simps)

lemma reversalStart_pending:
  assumes "k \<le> 21"
  shows "getMotor M1 (busyIter M1 k reversalStart)
           = (getMotor M1 reversalStart)\<lparr>currentSpeed := 3000 - 80 * real k\<rparr>"
    and "millis (busyIter M1 k reversalStart) = 605 + 10 * of_nat k"
    and "boostConfig (busyIter M1 k reversalStart) = boostConfig reversalStart"
proof -
  have "getMotor M1 (busyIter M1 k reversalStart)
           = (getMotor M1 reversalStart)
               \<lparr>currentSpeed := currentSpeed (getMotor M1 reversalStart) - accelStep * real k\<rparr>
         \<and> millis (busyIter M1 k reversalStart) = millis reversalStart + 10 * of_nat k
         \<and> boostConfig (busyIter M1 k reversalStart) = boostConfig reversalStart"
    using assms
    by (intro busyIter_pending)
      (simp_all add: reversalStart_motor1 accelStep_val MAX_SPEED_def del: getMotor.simps)
  then show "getMotor M1 (busyIter M1 k reversalStart)
           = (getMotor M1 reversalStart)\<lparr>currentSpeed := 3000 - 80 * real k\<rparr>"
    and "millis (busyIter M1 k reversalStart) = 605 + 10 * of_nat k"
    and "boostConfig (busyIter M1 k reversalStart) = boostConfig reversalStart"
    by (simp_all add: reversalStart_motor1 accelStep_val del: getMotor.simps)
qed

lemma reversalStart_iter21:
  "currentSpeed (getMotor M1 (busyIter M1 21 reversalStart)) = 1320"
  "direction (getMotor M1 (busyIter M1 21 reversalStart)) = 1"
  using reversalStart_pending(1) [of 21]
  by (simp_all add: reversalStart_motor1 getMotor_initSystem del: getMotor.simps)

lemma reversalStart_iter22:
  "currentSpeed (getMotor M1 (busyIter M1 22 reversalStart)) = 1400"
  "direction (getMotor M1 (busyIter M1 22 reversalStart)) = 1"
proof -
  have "busyIter M1 22 reversalStart = busyStep M1 (busyIter M1 21 reversalStart)"
    using busyIter_Suc_right [of M1 21 reversalStart] by simp
  then have "getMotor M1 (busyIter M1 22 reversalStart)
      = updateSpeedM (boostConfig reversalStart) 815
          ((getMotor M1 reversalStart)\<lparr>currentSpeed := 1320\<rparr>)"
    using reversalStart_pending [of 21]
    by (simp add: busyStep_def getMotor_updateSpeed del: getMotor.simps)
  then show "currentSpeed (getMotor M1 (busyIter M1 22 reversalStart)) = 1400"
    and "direction (getMotor M1 (busyIter M1 22 reversalStart)) = 1"
    by (simp_all add: reversalStart_motor1 updateSpeedM_def constrain_def accelStep_val
        MAX_SPEED_def Let_def getMotor_initSystem del: getMotor.simps)
qed

subsection \<open>An emergency stop with a boost that runs out\<close>



lemma haltedState_frame [simp]:
  "millis haltedState = 25"
  "boostConfig haltedState = \<lparr>multiplier = 3/2, duration = 800, enabled = True\<rparr>"
  by (simp_all add: haltedState_def cruiseState_def)

lemma cruiseState_frame [simp]:
  "millis cruiseState = 20"
  "boostConfig cruiseState = \<lparr>multiplier = 3/2, duration = 800, enabled = True\<rparr>"
  by (simp_all add: cruiseState_def)


subsection \<open>A busy-wait with no boost active\<close>

lemma updateSpeedM_decay:
  assumes "\<not> boostActive m" and "0 \<le> targetSpeed m" and "targetSpeed m \<le> L"
    and "L < currentSpeed m" and "currentSpeed m \<le> MAX_SPEED"
  shows "currentSpeed (updateSpeedM cfg now m) \<le> max L (currentSpeed m - accelStep)"
    and "currentSpeed (updateSpeedM cfg now m) \<le> currentSpeed m"
    and "\<not> boostActive (updateSpeedM cfg now m)"
    and "targetSpeed (updateSpeedM cfg now m) = targetSpeed m"
    and "dirPin (updateSpeedM cfg now m) = dirPin m"
  using assms
  by (auto simp: updateSpeedM_def Let_def constrain_def accelStep_val MAX_SPEED_def)

text \<open>With no boost active, a target at or below the limit and fuel for the whole ramp, the
  busy-wait returns, with the speed at or below the limit and not above where it started.\<close>

lemma busyWait_decays:
  assumes "\<not> boostActive (getMotor i s)"
    and "0 \<le> targetSpeed (getMotor i s)" and "targetSpeed (getMotor i s) \<le> L"
    and "currentSpeed (getMotor i s) \<le> MAX_SPEED"
    and "currentSpeed (getMotor i s) \<le> L + accelStep * real n"
  shows "\<exists>s'. busyWait n L i s = Some s' \<and> currentSpeed (getMotor i s') \<le> L \<and>
           currentSpeed (getMotor i s') \<le> currentSpeed (getMotor i s) \<and>
           dirPin (getMotor i s') = dirPin (getMotor i s)"
  using assms
proof (induction n arbitrary: s)
  case 0
  then show ?case by simp
next
  case (Suc n)
  let ?m = "getMotor i s"
  let ?s' = "delay accelUpdateInterval (updateSpeed i s)"
  show ?case
  proof (cases "L < currentSpeed ?m")
    case False
    then show ?thesis by simp
  next
    case True
    note d = updateSpeedM_decay [OF Suc.prems(1-3) True Suc.prems(4), of "boostConfig s" "millis s"]
    have m': "getMotor i (updateSpeed i s) = updateSpeedM (boostConfig s) (millis s) ?m"
      by (rule getMotor_busyStep)
    have "currentSpeed (getMotor i ?s') \<le> L + accelStep * real n"
      using d(1) Suc.prems(5) by (simp add: m' accelStep_val del: getMotor.simps)
    moreover have "currentSpeed (getMotor i ?s') \<le> MAX_SPEED"
      using d(2) Suc.prems(4) by (simp add: m' del: getMotor.simps)
    ultimately obtain s' where "busyWait n L i ?s' = Some s'"
      and "currentSpeed (getMotor i s') \<le> L"
      and "currentSpeed (getMotor i s') \<le> currentSpeed (getMotor i ?s')"
      and "dirPin (getMotor i s') = dirPin (getMotor i ?s')"
      using Suc.IH [of ?s'] d(3,4) Suc.prems(2,3) by (auto simp: m' simp del: getMotor.simps)
    then show ?thesis
      using True d(2,5) by (auto simp: m' simp del: getMotor.simps)
  qed
qed

lemma pinLevel_commitDirection:
  "pinLevel (commitDirection i d s) (dirPin (getMotor i s)) = (d \<noteq> 1)"
  by (cases i) (simp_all add: commitDirection_def digitalWrite_def Let_def)

text \<open>So, with no boost active, \<open>setDirection\<close> does what Claim C4 says: 247 iterations are
  enough from any speed up to \<open>MAX_SPEED\<close>; it returns with the direction committed and on
  the pin, the target restored, and, when it had to wait, a speed of at most 300.\<close>

lemma setDirection_without_boost:
  assumes "\<not> boostActive (getMotor i s)" and "0 \<le> currentSpeed (getMotor i s)"
    and "currentSpeed (getMotor i s) \<le> MAX_SPEED"
  shows "\<exists>s'. setDirection 247 i d s = Some s' \<and>
           direction (getMotor i s') = (if 0 \<le> d then 1 else - 1) \<and>
           pinLevel s' (dirPin (getMotor i s)) = (d < 0) \<and>
           targetSpeed (getMotor i s') = targetSpeed (getMotor i s) \<and>
           currentSpeed (getMotor i s') \<le> currentSpeed (getMotor i s) \<and>
           ((if 0 \<le> d then 1 else - 1) \<noteq> direction (getMotor i s) \<and> 500 < currentSpeed (getMotor i s)
              \<longrightarrow> currentSpeed (getMotor i s') \<le> 300)"
proof (cases "(if 0 \<le> d then 1 else - 1) \<noteq> direction (getMotor i s) \<and> 500 < currentSpeed (getMotor i s)")
  case False
  then have "setDirection 247 i d s = Some (commitDirection i (if 0 \<le> d then 1 else - 1) s)"
    by (intro setDirection_immediate) auto
  then show ?thesis
    using False
    by (auto simp: getMotor_commitDirection pinLevel_commitDirection
        simp del: getMotor.simps putMotor.simps)
next
  case True
  let ?m = "getMotor i s"
  let ?s1 = "putMotor i (?m\<lparr>targetSpeed := 200\<rparr>) s"
  have m1: "getMotor i ?s1 = ?m\<lparr>targetSpeed := 200\<rparr>"
    by (simp add: getMotor_putMotor del: getMotor.simps putMotor.simps)
  obtain s2 where w: "busyWait 247 300 i ?s1 = Some s2"
    and c2: "currentSpeed (getMotor i s2) \<le> 300"
      "currentSpeed (getMotor i s2) \<le> currentSpeed (getMotor i ?s1)"
    and p2: "dirPin (getMotor i s2) = dirPin (getMotor i ?s1)"
    using busyWait_decays [of i ?s1 300 247] assms
    by (auto simp: m1 accelStep_val MAX_SPEED_def simp del: getMotor.simps putMotor.simps)
  let ?s3 = "commitDirection i (if 0 \<le> d then 1 else - 1) s2"
  have "setDirection 247 i d s
      = Some (putMotor i ((getMotor i ?s3)\<lparr>targetSpeed := targetSpeed ?m\<rparr>) ?s3)"
    using True w by (simp add: setDirection_def Let_def del: getMotor.simps putMotor.simps)
  then show ?thesis
    using c2 p2 pinLevel_commitDirection [of i "if 0 \<le> d then 1 else - 1" s2]
    by (auto simp: m1 getMotor_commitDirection getMotor_putMotor
        simp del: getMotor.simps putMotor.simps)
qed

section \<open>Speed bounds\<close>



section \<open>The ramp rate of one tick\<close>




section \<open>Direction reversal\<close>

text \<open>
  Claim C4 against the code. With the default configuration, \<open>BOOST:FORWARD:2000\<close> is sent
  10 ms after start and \<open>M1:BACKWARD\<close> 595 ms later, while motor 1 runs forward at the boost
  speed of 3000 steps per second. \<open>setDirection\<close> lowers the target to 200 and waits for
  \<open>currentSpeed \<le> 300\<close>, calling \<open>updateSpeed\<close> every 10 ms. After 21 iterations the speed
  is 1320; the 22nd call finds the boost of 800 ms run out, sets the target back to
  \<open>normalSpeed = 2000\<close>, and the speed rises to 1400: it is not monotonically non-increasing.
  From there the speed never comes down to 300, so \<open>setDirection\<close> returns for no amount of
  fuel: the direction is never committed and the target never restored.
\<close>

theorem reversal_during_boost_never_returns:
  "reachable boostRunState \<and>
   direction (getMotor M1 boostRunState) = 1 \<and> currentSpeed (getMotor M1 boostRunState) = 3000 \<and>
   busyWait (22 + n) 300 M1 reversalStart = busyWait n 300 M1 (busyIter M1 22 reversalStart) \<and>
   currentSpeed (getMotor M1 (busyIter M1 21 reversalStart)) = 1320 \<and>
   currentSpeed (getMotor M1 (busyIter M1 22 reversalStart)) = 1400 \<and>
   direction (getMotor M1 (busyIter M1 22 reversalStart)) = 1 \<and>
   setDirection fuel M1 (- 1) boostRunState = None"
proof -
  have m: "direction (getMotor M1 boostRunState) = 1" "currentSpeed (getMotor M1 boostRunState) = 3000"
    by (simp_all add: boostRunState_motors getMotor_initSystem del: getMotor.simps)
  have above: "300 < currentSpeed (getMotor M1 (busyIter M1 j reversalStart))" if "j < 22" for j
    using that reversalStart_pending(1) [of j] by (simp del: getMotor.simps)
  have reach: "busyWait (22 + n) 300 M1 reversalStart = busyWait n 300 M1 (busyIter M1 22 reversalStart)"
    using above by (rule busyWait_busyIter)
  have "busyWait fuel 300 M1 reversalStart = None"
    by (rule busyWait_boost_rearms [where n = 21])
      (simp_all add: reversalStart_motor1 accelStep_val MAX_SPEED_def del: getMotor.simps)
  then have "setDirection fuel M1 (- 1) boostRunState = None"
    using m by (simp add: setDirection_def Let_def reversalStart_def
        del: getMotor.simps putMotor.simps)
  with m reach show ?thesis
    by (simp add: boostRunState_reachable reversalStart_iter21 reversalStart_iter22
        del: getMotor.simps)
qed

section \<open>Emergency stop\<close>




section \<open>The boost lifecycle\<close>




section \<open>Convergence of the ramp\<close>

text \<open>
  Claim C6. A running motor with no boost active and a target \<open>T\<close> in \<open>[0, MAX_SPEED]\<close> that
  no command changes has \<open>currentSpeed = T\<close> exactly after any number of control ticks that is
  at least \<open>\<lceil>|T - currentSpeed\<^sub>0| / accelStep\<rceil>\<close>, whatever the time between the ticks; so the
  speed is reached within that many ticks and every further tick leaves it at \<open>T\<close>.
\<close>

theorem ramp_convergence:
  assumes "isRunning (getMotor i s)" and "\<not> boostActive (getMotor i s)"
    and "targetSpeed (getMotor i s) = T" and "0 \<le> T" and "T \<le> MAX_SPEED"
    and "nat \<lceil>\<bar>T - currentSpeed (getMotor i s)\<bar> / accelStep\<rceil> \<le> length ds"
  shows "currentSpeed (getMotor i (ticks ds s)) = T \<and>
         targetSpeed (getMotor i (ticks ds s)) = T \<and>
         currentSpeed (getMotor i (tick (delay d (ticks ds s)))) = T"
proof -
  let ?x = "\<bar>T - currentSpeed (getMotor i s)\<bar>"
  have "?x / accelStep \<le> real_of_int \<lceil>?x / accelStep\<rceil>"
    by (rule le_of_int_ceiling)
  also have "\<dots> \<le> real (length ds)"
    using assms(6) by linarith
  finally have "?x \<le> accelStep * real (length ds)"
    by (simp add: accelStep_val field_simps)
  then have far: "?x \<le> accelStep * real (length (ds @ [d]))"
    by (simp add: accelStep_val)
  have more: "ticks (ds @ [d]) s = tick (delay d (ticks ds s))" for s
    by (induction ds arbitrary: s) simp_all
  show ?thesis
    using ticks_converge [OF assms(1-5) \<open>?x \<le> accelStep * real (length ds)\<close>]
      ticks_converge [OF assms(1-5) far]
    by (simp add: more)
qed

theorem ramp_convergence_witness:
  "isRunning (getMotor M1 (setSpeed M1 1000 initSystem)) \<and>
   \<not> boostActive (getMotor M1 (setSpeed M1 1000 initSystem)) \<and>
   targetSpeed (getMotor M1 (setSpeed M1 1000 initSystem)) = 1000 \<and>
   nat \<lceil>\<bar>1000 - currentSpeed (getMotor M1 (setSpeed M1 1000 initSystem))\<bar> / accelStep\<rceil> = 13 \<and>
   currentSpeed (getMotor M1 (ticks (replicate 13 10) (setSpeed M1 1000 initSystem))) = 1000 \<and>
   currentSpeed (getMotor M1 (tick (delay 10 (ticks (replicate 13 10) (setSpeed M1 1000 initSystem))))) = 1000"
proof -
  have m: "motor1 (setSpeed M1 1000 initSystem) =
      (initMotor M1_PWM_PIN M1_DIR_PIN)\<lparr>targetSpeed := 1000, isRunning := True\<rparr>"
    by (simp add: setSpeed_def setSpeedM_def initSystem_def initMotor_def constrain_def
        MAX_SPEED_def Let_def)
  have n: "nat \<lceil>\<bar>1000 - currentSpeed (getMotor M1 (setSpeed M1 1000 initSystem))\<bar> / accelStep\<rceil> = 13"
    by (simp add: m initMotor_def accelStep_val)
  have h: "isRunning (getMotor M1 (setSpeed M1 1000 initSystem))"
    "\<not> boostActive (getMotor M1 (setSpeed M1 1000 initSystem))"
    "targetSpeed (getMotor M1 (setSpeed M1 1000 initSystem)) = 1000"
    "(0::real) \<le> 1000" "1000 \<le> MAX_SPEED"
    "nat \<lceil>\<bar>1000 - currentSpeed (getMotor M1 (setSpeed M1 1000 initSystem))\<bar> / accelStep\<rceil>
       \<le> length (replicate 13 (10 :: 32 word))"
    using n by (simp_all add: m initMotor_def MAX_SPEED_def)
  show ?thesis
    using ramp_convergence [OF h, of 10] h(1-3) n by simp
qed

section \<open>Timer commitment\<close>




section \<open>Boost configuration\<close>

text \<open>
  Claim C8, as stated, fails: the \<open>CONFIG:BOOST\<close> branch clamps nothing.
  \<open>CONFIG:BOOST:0.1:0:1\<close> is accepted and leaves the multiplier 0.1, below 1, and the duration
  0; a duration of 65536 is cut to the 16 bits of the field and is stored as 0 as well.
\<close>

theorem boost_config_clamp_counterexample:
  "processCommand 0 (CONFIG_BOOST (1/10) 0 1) initSystem = Some (configBoost (1/10) 0 1 initSystem) \<and>
   multiplier (boostConfig (configBoost (1/10) 0 1 initSystem)) < 1 \<and>
   duration (boostConfig (configBoost (1/10) 0 1 initSystem)) = 0 \<and>
   duration (boostConfig (configBoost (3/2) 65536 1 initSystem)) = 0"
  by (simp add: configBoost_def)

text \<open>
  Claim C8, amended. Every \<open>CONFIG:BOOST\<close> command is accepted, with any fuel and in any state,
  and stores its values unclamped: the multiplier as parsed, the duration as the parsed integer
  modulo 65536 (the \<open>uint16_t\<close> field), and \<open>enabled\<close> exactly when the third value is 1. The
  motors are not touched.
\<close>

theorem boost_config_stored_raw:
  "processCommand fuel (CONFIG_BOOST mult dur en) s = Some (configBoost mult dur en s) \<and>
   multiplier (boostConfig (configBoost mult dur en s)) = mult \<and>
   unat (duration (boostConfig (configBoost mult dur en s))) = unat dur mod 65536 \<and>
   enabled (boostConfig (configBoost mult dur en s)) = (en = 1) \<and>
   motor1 (configBoost mult dur en s) = motor1 s \<and>
   motor2 (configBoost mult dur en s) = motor2 s"
  by (simp add: configBoost_def unsigned_ucast_eq take_bit_eq_mod)

section \<open>The drift advisory\<close>

text \<open>
  Claim C9, as stated, fails at the far end of the counters: the positions are 32-bit \<open>long\<close>
  values and the drift is computed in that type. With motor 1 at 2147483647 and motor 2 at
  -2147483648 (a reachable state: the motors turn in opposite directions), the true drift is
  4294967295, the subtraction wraps to -1, and \<open>checkSync\<close> prints nothing although motor 1
  is running.
\<close>

theorem drift_advisory_wraparound_counterexample:
  "reachable driftedState \<and> isRunning (motor1 driftedState) \<and>
   SYNC_THRESHOLD < \<bar>sint (position (motor1 driftedState)) - sint (position (motor2 driftedState))\<bar> \<and>
   \<not> advisoryRaised driftedState"
  by (simp add: driftedState_reachable driftedState_motors advisoryRaised_iff abs_long_def
      SYNC_THRESHOLD_def)

text \<open>
  Claim C9, amended. While the difference of the two positions fits the signed 32-bit range
  (\<open>|position1 - position2| < 2\<^sup>3\<^sup>1\<close>), \<open>checkSync\<close> prints its warning exactly when
  \<open>|position1 - position2| > SYNC_THRESHOLD\<close> and at least one motor is running. In every
  state it takes no corrective action: both \<open>Motor\<close> records, the boost configuration, the
  clock and the pins are unchanged, and without a warning the whole state is.
\<close>

theorem drift_advisory:
  "(\<bar>sint (position (motor1 s)) - sint (position (motor2 s))\<bar> < 2 ^ 31 \<longrightarrow>
      (advisoryRaised s \<longleftrightarrow>
         SYNC_THRESHOLD < \<bar>sint (position (motor1 s)) - sint (position (motor2 s))\<bar> \<and>
         (isRunning (motor1 s) \<or> isRunning (motor2 s)))) \<and>
   motor1 (checkSync s) = motor1 s \<and> motor2 (checkSync s) = motor2 s \<and>
   boostConfig (checkSync s) = boostConfig s \<and> pinLevel (checkSync s) = pinLevel s \<and>
   millis (checkSync s) = millis s \<and>
   (\<not> advisoryRaised s \<longrightarrow> checkSync s = s)"
proof -
  have "\<not> advisoryRaised s \<Longrightarrow> checkSync s = s"
    by (auto simp: advisoryRaised_def checkSync_def Let_def split: if_splits)
  then show ?thesis
    by (auto simp: advisoryRaised_iff abs_long_exact checkSync_frame)
qed

theorem drift_advisory_witness:
  "\<bar>sint (position (motor1 ((stepISR M1 ^^ 101) opposedState)))
     - sint (position (motor2 ((stepISR M1 ^^ 101) opposedState)))\<bar> < 2 ^ 31 \<and>
   advisoryRaised ((stepISR M1 ^^ 101) opposedState) \<and>
   \<bar>sint (position (motor1 ((stepISR M1 ^^ 100) opposedState)))
     - sint (position (motor2 ((stepISR M1 ^^ 100) opposedState)))\<bar> < 2 ^ 31 \<and>
   \<not> advisoryRaised ((stepISR M1 ^^ 100) opposedState) \<and>
   checkSync ((stepISR M1 ^^ 100) opposedState) = (stepISR M1 ^^ 100) opposedState"
proof -
  have m: "motor1 ((stepISR M1 ^^ n) opposedState) = (motor1 opposedState)\<lparr>position := of_nat n\<rparr>"
    "motor2 ((stepISR M1 ^^ n) opposedState) = motor2 opposedState" for n
    using getMotor_stepISR_funpow [of M1 n M1 opposedState]
      getMotor_stepISR_funpow [of M2 n M1 opposedState]
    by (simp_all add: opposedState_motors [unfolded getMotor.simps] initMotor_def)
  have p: "position (motor2 opposedState) = 0" "isRunning (motor1 opposedState)"
    by (simp_all add: opposedState_motors [unfolded getMotor.simps] initMotor_def)
  show ?thesis
    using drift_advisory [of "(stepISR M1 ^^ 101) opposedState"]
      drift_advisory [of "(stepISR M1 ^^ 100) opposedState"]
    by (simp add: m p SYNC_THRESHOLD_def del: funpow.simps)
qed

section \<open>Speed set and the run flag\<close>



end
